theory Spec2Isabelle
  imports Main
begin

section \<open>Values that cross the library boundary\<close>

text \<open>
  A JavaScript \<^verbatim>\<open>throw\<close> may carry any value. The library itself only throws
  \<^verbatim>\<open>new Error(msg)\<close>; user callbacks may throw anything else.
\<close>

datatype 'x thrown = Error string | Thrown 'x

text \<open>
  A field of static type \<^verbatim>\<open>T\<close> can hold \<^verbatim>\<open>undefined\<close> at run time
  (\<^verbatim>\<open>take\<close> stores it through a cast), so the operations that write it work on
  \<open>'a js\<close>.
\<close>

datatype 'a js = Undefined | Val 'a

text \<open>
  Synchronous code with callbacks: a computation reads and writes the caller's world
  \<open>'w\<close> (the variables a callback closes over) and ends by returning or throwing.
\<close>

type_synonym ('a, 'x, 'w) eff = "'w \<Rightarrow> ('x thrown + 'a) \<times> 'w"

definition ret :: "'a \<Rightarrow> ('a, 'x, 'w) eff" where
  "ret v = (\<lambda>w. (Inr v, w))"

definition lift :: "'x thrown + 'a \<Rightarrow> ('a, 'x, 'w) eff" where
  "lift r = (\<lambda>w. (r, w))"

definition seq :: "('a, 'x, 'w) eff \<Rightarrow> ('a \<Rightarrow> ('b, 'x, 'w) eff) \<Rightarrow> ('b, 'x, 'w) eff" where
  "seq m k = (\<lambda>w. case m w of (Inl e, w') \<Rightarrow> (Inl e, w') | (Inr v, w') \<Rightarrow> k v w')"


section \<open>Option (option.ts)\<close>

text \<open>The two classes \<^verbatim>\<open>OptionSome\<close> (field \<^verbatim>\<open>value\<close>) and \<^verbatim>\<open>OptionNone\<close>.\<close>

datatype 'a Option = OptionSome 'a | OptionNone

fun is_some :: "'a Option \<Rightarrow> bool" where
  "is_some (OptionSome value) = True"
| "is_some OptionNone = False"

fun is_none :: "'a Option \<Rightarrow> bool" where
  "is_none (OptionSome value) = False"
| "is_none OptionNone = True"

fun expect :: "'a Option \<Rightarrow> string \<Rightarrow> 'x thrown + 'a" where
  "expect (OptionSome value) msg = Inr value"
| "expect OptionNone msg = Inl (Error msg)"

fun unwrap :: "'a Option \<Rightarrow> 'x thrown + 'a" where
  "unwrap (OptionSome value) = Inr value"
| "unwrap OptionNone = Inl (Error ''Called Option.unwrap() on a None value'')"

fun map_o :: "'a Option \<Rightarrow> ('a \<Rightarrow> ('b, 'x, 'w) eff) \<Rightarrow> ('b Option, 'x, 'w) eff" where
  "map_o (OptionSome value) fn = seq (fn value) (\<lambda>u. ret (OptionSome u))"
| "map_o OptionNone fn = ret OptionNone"

fun and_then :: "'a Option \<Rightarrow> ('a \<Rightarrow> ('b Option, 'x, 'w) eff) \<Rightarrow> ('b Option, 'x, 'w) eff" where
  "and_then (OptionSome value) fn = fn value"
| "and_then OptionNone fn = ret OptionNone"

text \<open>
  The two mutating methods return the method's result together with the receiver as it
  is after the call. \<^verbatim>\<open>OptionSome.take\<close> overwrites the field with
  \<^verbatim>\<open>undefined\<close>; the receiver stays an instance of \<^verbatim>\<open>OptionSome\<close>.
  \<^verbatim>\<open>OptionNone.take\<close> returns \<^verbatim>\<open>this\<close>.
\<close>

fun take_o :: "'a js Option \<Rightarrow> 'a js Option \<times> 'a js Option" where
  "take_o (OptionSome value) = (OptionSome value, OptionSome Undefined)"
| "take_o OptionNone = (OptionNone, OptionNone)"

fun replace_o :: "'a Option \<Rightarrow> 'a \<Rightarrow> 'a Option \<times> 'a Option" where
  "replace_o (OptionSome oldValue) value = (OptionSome oldValue, OptionSome value)"
| "replace_o OptionNone value = (OptionSome value, OptionNone)"


section \<open>Result (result.ts)\<close>

text \<open>
  The two classes \<^verbatim>\<open>ResultOk\<close> and \<^verbatim>\<open>ResultErr\<close>, each with the one field
  \<^verbatim>\<open>value\<close>. Their source is the last of the documents in
  \<^verbatim>\<open>src/src/option-async.test.ts\<close>.
\<close>

datatype ('t, 'e) Result = Ok 't | Err 'e

fun is_ok :: "('t, 'e) Result \<Rightarrow> bool" where
  "is_ok (Ok value) = True"
| "is_ok (Err value) = False"

fun is_err :: "('t, 'e) Result \<Rightarrow> bool" where
  "is_err (Ok value) = False"
| "is_err (Err value) = True"

fun expect_r :: "('t, 'e) Result \<Rightarrow> string \<Rightarrow> 'x thrown + 't" where
  "expect_r (Ok value) msg = Inr value"
| "expect_r (Err value) msg = Inl (Error msg)"

text \<open>
  \<^verbatim>\<open>ResultErr.unwrap\<close> appends the error value to its message; \<open>to_string\<close> is the
  conversion to a string that \<^verbatim>\<open>+\<close> applies to the value.
\<close>

fun unwrap_r :: "('e \<Rightarrow> string) \<Rightarrow> ('t, 'e) Result \<Rightarrow> 'x thrown + 't" where
  "unwrap_r to_string (Ok value) = Inr value"
| "unwrap_r to_string (Err value) =
     Inl (Error (''Called Result.unwrap() on an Err value: '' @ to_string value))"

fun and_then_r ::
  "('t, 'e) Result \<Rightarrow> ('t \<Rightarrow> (('u, 'e) Result, 'x, 'w) eff) \<Rightarrow> (('u, 'e) Result, 'x, 'w) eff" where
  "and_then_r (Ok value) fn = fn value"
| "and_then_r (Err value) fn = ret (Err value)"


section \<open>Promises, by what they settle to\<close>

text \<open>
  A promise settles at most once: it is fulfilled with a value, rejected with a thrown
  value, or stays pending for ever. In this section a promise is identified with that
  outcome; the order and number of callback runs is the subject of the job-queue model
  further down.
\<close>

datatype ('a, 'x) promise = Fulfilled 'a | Rejected "'x thrown" | Pending

text \<open>\<^verbatim>\<open>MaybeAsync<T> = T | Promise<T>\<close>.\<close>

datatype ('a, 'x) MaybeAsync = Plain 'a | Promised "('a, 'x) promise"

fun Promise_resolve :: "('a, 'x) MaybeAsync \<Rightarrow> ('a, 'x) promise" where
  "Promise_resolve (Plain v) = Fulfilled v"
| "Promise_resolve (Promised p) = p"

text \<open>
  \<^verbatim>\<open>p.then(onfulfilled, onrejected)\<close>: the promise derived from \<open>p\<close> settles to what
  the callback selected by the settlement of \<open>p\<close> produces, and never settles when \<open>p\<close>
  does not.
\<close>

fun Promise_then ::
  "('a, 'x) promise \<Rightarrow> ('a \<Rightarrow> ('b, 'x) promise) \<Rightarrow> ('x thrown \<Rightarrow> ('b, 'x) promise)
   \<Rightarrow> ('b, 'x) promise" where
  "Promise_then (Fulfilled v) onfulfilled onrejected = onfulfilled v"
| "Promise_then (Rejected e) onfulfilled onrejected = onrejected e"
| "Promise_then Pending onfulfilled onrejected = Pending"

text \<open>
  \<^verbatim>\<open>await x\<close> inside an async function, for a thenable \<open>x\<close>: the runtime calls the
  \<^verbatim>\<open>then\<close> method of \<open>x\<close> with the two functions that resume the body. The body goes
  on with the value (\<open>Fulfilled\<close>), the \<^verbatim>\<open>await\<close> throws (\<open>Rejected\<close>), or the body
  is never resumed (\<open>Pending\<close>).
\<close>

definition await ::
  "(('a \<Rightarrow> ('a, 'x) promise) \<Rightarrow> ('x thrown \<Rightarrow> ('a, 'x) promise) \<Rightarrow> ('a, 'x) promise)
   \<Rightarrow> ('a, 'x) promise" where
  "await then_method = then_method Fulfilled Rejected"

text \<open>
  Resolving a promise with a value. The runtime reads the member \<^verbatim>\<open>then\<close> of the
  value: \<open>then_of v\<close> is \<open>None\<close> when \<open>v\<close> has no callable \<^verbatim>\<open>then\<close>, and otherwise
  tells what that method does with the two functions it is given (it calls the first
  with a value, the second with a thrown value, or neither). A value without
  \<^verbatim>\<open>then\<close> fulfils the promise. A value a thenable hands over is resolved in the
  same way, so a chain of thenables is followed to its end; a chain without end leaves
  the promise pending, which is the value \<open>None\<close> of \<open>resolve_chain\<close>.
\<close>

partial_function (option) resolve_chain ::
  "('a \<Rightarrow> ('a, 'x) promise option) \<Rightarrow> 'a \<Rightarrow> ('a, 'x) promise option" where
  "resolve_chain then_of v =
     (case then_of v of
        None \<Rightarrow> Some (Fulfilled v)
      | Some called \<Rightarrow>
          (case called of
             Fulfilled y \<Rightarrow> resolve_chain then_of y
           | Rejected e \<Rightarrow> Some (Rejected e)
           | Pending \<Rightarrow> Some Pending))"

definition resolve_value :: "('a \<Rightarrow> ('a, 'x) promise option) \<Rightarrow> 'a \<Rightarrow> ('a, 'x) promise" where
  "resolve_value then_of v = (case resolve_chain then_of v of Some p \<Rightarrow> p | None \<Rightarrow> Pending)"

text \<open>
  \<^verbatim>\<open>await x\<close> for \<^verbatim>\<open>x: MaybeAsync<T>\<close>: a promise is awaited as it is, any other
  value is resolved first.
\<close>

fun await_value ::
  "('a \<Rightarrow> ('a, 'x) promise option) \<Rightarrow> ('a, 'x) MaybeAsync \<Rightarrow> ('a, 'x) promise" where
  "await_value then_of (Plain v) = resolve_value then_of v"
| "await_value then_of (Promised p) = p"

text \<open>
  The promise an async function returns: resolved with the returned value, rejected
  with the value thrown out of the body.
\<close>

fun async_return ::
  "('a \<Rightarrow> ('a, 'x) promise option) \<Rightarrow> 'x thrown + 'a \<Rightarrow> ('a, 'x) promise" where
  "async_return then_of (Inr v) = resolve_value then_of v"
| "async_return then_of (Inl e) = Rejected e"


section \<open>OptionAsync (option-async.ts)\<close>

datatype ('t, 'x) OptionAsync = OptionAsync (promise: "('t Option, 'x) promise")

definition fromOption :: "('t Option, 'x) MaybeAsync \<Rightarrow> ('t, 'x) OptionAsync" where
  "fromOption option = OptionAsync (Promise_resolve option)"

definition OptionAsync_some :: "'t \<Rightarrow> ('t, 'x) OptionAsync" where
  "OptionAsync_some value = OptionAsync (Promise_resolve (Plain (OptionSome value)))"

definition OptionAsync_none :: "('t, 'x) OptionAsync" where
  "OptionAsync_none = OptionAsync (Promise_resolve (Plain OptionNone))"

definition OptionAsync_then ::
  "('t, 'x) OptionAsync \<Rightarrow> ('t Option \<Rightarrow> ('b, 'x) promise) \<Rightarrow> ('x thrown \<Rightarrow> ('b, 'x) promise)
   \<Rightarrow> ('b, 'x) promise" where
  "OptionAsync_then this onfulfilled onrejected =
     Promise_then (OptionAsync.promise this) onfulfilled onrejected"

text \<open>
  \<^verbatim>\<open>OptionAsync.try(fn)\<close>. The callback takes no argument; calling it throws
  (\<open>Inl\<close>) or returns a value or a promise (\<open>Inr\<close>), which the body awaits inside
  \<^verbatim>\<open>try\<close>. The \<^verbatim>\<open>catch\<close> clause binds nothing and returns \<^verbatim>\<open>None()\<close>.
\<close>

definition OptionAsync_try ::
  "('t \<Rightarrow> ('t, 'x) promise option) \<Rightarrow> (unit \<Rightarrow> 'x thrown + ('t, 'x) MaybeAsync)
   \<Rightarrow> ('t, 'x) OptionAsync" where
  "OptionAsync_try then_of fn =
     OptionAsync
       (case fn () of
          Inl error \<Rightarrow> Fulfilled OptionNone
        | Inr m \<Rightarrow>
            (case await_value then_of m of
               Fulfilled value \<Rightarrow> Fulfilled (OptionSome value)
             | Rejected error \<Rightarrow> Fulfilled OptionNone
             | Pending \<Rightarrow> Pending))"

text \<open>
  \<^verbatim>\<open>OptionAsync.all(options)\<close>. The loop keeps \<^verbatim>\<open>values\<close>; the model also keeps the
  list of the handles the body has awaited so far, and returns it beside the settlement
  of the promise of the async body.
\<close>

fun OptionAsync_all_loop ::
  "('t, 'x) OptionAsync list \<Rightarrow> 't list \<Rightarrow> ('t, 'x) OptionAsync list
   \<Rightarrow> ('t list Option, 'x) promise \<times> ('t, 'x) OptionAsync list" where
  "OptionAsync_all_loop [] values awaited = (Fulfilled (OptionSome values), awaited)"
| "OptionAsync_all_loop (optionAsync # rest) values awaited =
     (case await (OptionAsync_then optionAsync) of
        Fulfilled option \<Rightarrow>
          (case option of
             OptionNone \<Rightarrow> (Fulfilled OptionNone, awaited @ [optionAsync])
           | OptionSome value \<Rightarrow>
               OptionAsync_all_loop rest (values @ [value]) (awaited @ [optionAsync]))
      | Rejected error \<Rightarrow> (Rejected error, awaited @ [optionAsync])
      | Pending \<Rightarrow> (Pending, awaited @ [optionAsync]))"

definition OptionAsync_all ::
  "('t, 'x) OptionAsync list \<Rightarrow> ('t list, 'x) OptionAsync \<times> ('t, 'x) OptionAsync list" where
  "OptionAsync_all options =
     (case OptionAsync_all_loop options [] [] of (p, awaited) \<Rightarrow> (OptionAsync p, awaited))"

text \<open>
  The terminal extractions are async methods: they await the promise of the wrapper and
  return what the synchronous method returns or throws.
\<close>

definition OptionAsync_expect ::
  "('t \<Rightarrow> ('t, 'x) promise option) \<Rightarrow> ('t, 'x) OptionAsync \<Rightarrow> string \<Rightarrow> ('t, 'x) promise" where
  "OptionAsync_expect then_of this msg =
     (case OptionAsync.promise this of
        Fulfilled option \<Rightarrow> async_return then_of (expect option msg)
      | Rejected error \<Rightarrow> Rejected error
      | Pending \<Rightarrow> Pending)"

definition OptionAsync_unwrap ::
  "('t \<Rightarrow> ('t, 'x) promise option) \<Rightarrow> ('t, 'x) OptionAsync \<Rightarrow> ('t, 'x) promise" where
  "OptionAsync_unwrap then_of this =
     (case OptionAsync.promise this of
        Fulfilled option \<Rightarrow> async_return then_of (unwrap option)
      | Rejected error \<Rightarrow> Rejected error
      | Pending \<Rightarrow> Pending)"

text \<open>\<^verbatim>\<open>OptionSome.prototype.toAsync\<close> and \<^verbatim>\<open>OptionNone.prototype.toAsync\<close>.\<close>

definition toAsync_o :: "'t Option \<Rightarrow> ('t, 'x) OptionAsync" where
  "toAsync_o this = fromOption (Plain this)"


section \<open>ResultAsync (result-async.ts)\<close>

datatype ('t, 'e, 'x) ResultAsync = ResultAsync (promise: "(('t, 'e) Result, 'x) promise")

definition fromResult :: "(('t, 'e) Result, 'x) MaybeAsync \<Rightarrow> ('t, 'e, 'x) ResultAsync" where
  "fromResult result = ResultAsync (Promise_resolve result)"

definition ResultAsync_ok :: "'t \<Rightarrow> ('t, 'e, 'x) ResultAsync" where
  "ResultAsync_ok value = ResultAsync (Promise_resolve (Plain (Ok value)))"

definition ResultAsync_err :: "'e \<Rightarrow> ('t, 'e, 'x) ResultAsync" where
  "ResultAsync_err error = ResultAsync (Promise_resolve (Plain (Err error)))"

definition ResultAsync_then ::
  "('t, 'e, 'x) ResultAsync \<Rightarrow> (('t, 'e) Result \<Rightarrow> ('b, 'x) promise)
   \<Rightarrow> ('x thrown \<Rightarrow> ('b, 'x) promise) \<Rightarrow> ('b, 'x) promise" where
  "ResultAsync_then this onfulfilled onrejected =
     Promise_then (ResultAsync.promise this) onfulfilled onrejected"

text \<open>
  \<^verbatim>\<open>ResultAsync.try(fn, errorFn)\<close>. Without \<^verbatim>\<open>errorFn\<close> the caught value is stored
  as it is (\<^verbatim>\<open>error as E\<close>), so the error type is the type of thrown values. A mapping
  function that itself throws does so inside the \<^verbatim>\<open>catch\<close> clause: the async body
  rejects.
\<close>

definition mapError ::
  "('x thrown \<Rightarrow> 'x thrown + 'x thrown) option \<Rightarrow> 'x thrown
   \<Rightarrow> (('t, 'x thrown) Result, 'x) promise" where
  "mapError errorFn error =
     (case errorFn of
        None \<Rightarrow> Fulfilled (Err error)
      | Some f \<Rightarrow> (case f error of Inr mappedError \<Rightarrow> Fulfilled (Err mappedError)
                                 | Inl e \<Rightarrow> Rejected e))"

definition ResultAsync_try ::
  "('t \<Rightarrow> ('t, 'x) promise option) \<Rightarrow> (unit \<Rightarrow> 'x thrown + ('t, 'x) MaybeAsync)
   \<Rightarrow> ('x thrown \<Rightarrow> 'x thrown + 'x thrown) option \<Rightarrow> ('t, 'x thrown, 'x) ResultAsync" where
  "ResultAsync_try then_of fn errorFn =
     ResultAsync
       (case fn () of
          Inl error \<Rightarrow> mapError errorFn error
        | Inr m \<Rightarrow>
            (case await_value then_of m of
               Fulfilled value \<Rightarrow> Fulfilled (Ok value)
             | Rejected error \<Rightarrow> mapError errorFn error
             | Pending \<Rightarrow> Pending))"

text \<open>
  \<^verbatim>\<open>ResultAsync.all(results)\<close>, with the list of awaited handles as in
  \<^verbatim>\<open>OptionAsync.all\<close>. The test \<^verbatim>\<open>result.is_err()\<close> and the field
  \<^verbatim>\<open>result.value\<close> are the case distinction on the result. On an \<open>Err\<close> the body
  returns that very result (\<^verbatim>\<open>return result as any\<close>); the cast is the change of
  the success type here.
\<close>

fun ResultAsync_all_loop ::
  "('t, 'e, 'x) ResultAsync list \<Rightarrow> 't list \<Rightarrow> ('t, 'e, 'x) ResultAsync list
   \<Rightarrow> (('t list, 'e) Result, 'x) promise \<times> ('t, 'e, 'x) ResultAsync list" where
  "ResultAsync_all_loop [] values awaited = (Fulfilled (Ok values), awaited)"
| "ResultAsync_all_loop (resultAsync # rest) values awaited =
     (case await (ResultAsync_then resultAsync) of
        Fulfilled result \<Rightarrow>
          (case result of
             Err error \<Rightarrow> (Fulfilled (Err error), awaited @ [resultAsync])
           | Ok value \<Rightarrow>
               ResultAsync_all_loop rest (values @ [value]) (awaited @ [resultAsync]))
      | Rejected error \<Rightarrow> (Rejected error, awaited @ [resultAsync])
      | Pending \<Rightarrow> (Pending, awaited @ [resultAsync]))"

definition ResultAsync_all ::
  "('t, 'e, 'x) ResultAsync list
   \<Rightarrow> ('t list, 'e, 'x) ResultAsync \<times> ('t, 'e, 'x) ResultAsync list" where
  "ResultAsync_all results =
     (case ResultAsync_all_loop results [] [] of (p, awaited) \<Rightarrow> (ResultAsync p, awaited))"

text \<open>
  \<^verbatim>\<open>ResultAsync.allSettled(results)\<close>: two accumulators, no early return; the test
  \<^verbatim>\<open>errors.length > 0\<close> comes after the loop.
\<close>

fun allSettled_loop ::
  "('t, 'e, 'x) ResultAsync list \<Rightarrow> 't list \<Rightarrow> 'e list \<Rightarrow> ('t, 'e, 'x) ResultAsync list
   \<Rightarrow> (('t list, 'e list) Result, 'x) promise \<times> ('t, 'e, 'x) ResultAsync list" where
  "allSettled_loop [] values errors awaited =
     (if length errors > 0 then (Fulfilled (Err errors), awaited)
      else (Fulfilled (Ok values), awaited))"
| "allSettled_loop (resultAsync # rest) values errors awaited =
     (case await (ResultAsync_then resultAsync) of
        Fulfilled result \<Rightarrow>
          (case result of
             Err error \<Rightarrow> allSettled_loop rest values (errors @ [error]) (awaited @ [resultAsync])
           | Ok value \<Rightarrow> allSettled_loop rest (values @ [value]) errors (awaited @ [resultAsync]))
      | Rejected error \<Rightarrow> (Rejected error, awaited @ [resultAsync])
      | Pending \<Rightarrow> (Pending, awaited @ [resultAsync]))"

definition allSettled ::
  "('t, 'e, 'x) ResultAsync list
   \<Rightarrow> ('t list, 'e list, 'x) ResultAsync \<times> ('t, 'e, 'x) ResultAsync list" where
  "allSettled results =
     (case allSettled_loop results [] [] [] of (p, awaited) \<Rightarrow> (ResultAsync p, awaited))"

text \<open>
  \<^verbatim>\<open>ResultAsync.expect\<close> and \<^verbatim>\<open>ResultAsync.unwrap\<close> await the promise and call the
  synchronous method of the same name.
\<close>

definition ResultAsync_expect ::
  "('t \<Rightarrow> ('t, 'x) promise option) \<Rightarrow> ('t, 'e, 'x) ResultAsync \<Rightarrow> string \<Rightarrow> ('t, 'x) promise" where
  "ResultAsync_expect then_of this msg =
     (case ResultAsync.promise this of
        Fulfilled result \<Rightarrow> async_return then_of (expect_r result msg)
      | Rejected error \<Rightarrow> Rejected error
      | Pending \<Rightarrow> Pending)"

definition ResultAsync_unwrap ::
  "('t \<Rightarrow> ('t, 'x) promise option) \<Rightarrow> ('e \<Rightarrow> string) \<Rightarrow> ('t, 'e, 'x) ResultAsync
   \<Rightarrow> ('t, 'x) promise" where
  "ResultAsync_unwrap then_of to_string this =
     (case ResultAsync.promise this of
        Fulfilled result \<Rightarrow> async_return then_of (unwrap_r to_string result)
      | Rejected error \<Rightarrow> Rejected error
      | Pending \<Rightarrow> Pending)"

text \<open>\<^verbatim>\<open>ResultOk.prototype.toAsync\<close> and \<^verbatim>\<open>ResultErr.prototype.toAsync\<close>.\<close>

definition toAsync_r :: "('t, 'e) Result \<Rightarrow> ('t, 'e, 'x) ResultAsync" where
  "toAsync_r this = fromResult (Plain this)"


section \<open>A universe of values\<close>

text \<open>
  The values a program of this library handles, as one type: numbers, strings, the
  objects of the two sum types and the two wrappers. Of these only the wrappers have a
  member \<^verbatim>\<open>then\<close>: it is the method \<^verbatim>\<open>then\<close> of the class, called with the two
  functions of the runtime.
\<close>

datatype jsval =
    Num int
  | Str string
  | OptionV "jsval Option"
  | ResultV "(jsval, jsval) Result"
  | OptionAsyncV "(jsval, jsval) OptionAsync"
  | ResultAsyncV "(jsval, jsval, jsval) ResultAsync"

fun then_member :: "jsval \<Rightarrow> (jsval, jsval) promise option" where
  "then_member (OptionAsyncV w) =
     Some (OptionAsync_then w (\<lambda>option. Fulfilled (OptionV option)) Rejected)"
| "then_member (ResultAsyncV w) =
     Some (ResultAsync_then w (\<lambda>result. Fulfilled (ResultV result)) Rejected)"
| "then_member v = None"


section \<open>Promise cells and the job queue\<close>

text \<open>
  How often a callback runs, and what each of several awaits of one wrapper observes,
  depends on the promise as an object: a cell that is settled once, the reactions
  registered on it while it is pending, and the queue of jobs the runtime runs one
  after the other. A wrapper holds a reference to its cell (the private field
  \<^verbatim>\<open>promise\<close>). A reaction is either a callback registered through \<^verbatim>\<open>then\<close>,
  together with the promise that \<^verbatim>\<open>then\<close> returned, or the continuation of an
  \<^verbatim>\<open>await\<close>. Callbacks act on the variables they close over (\<open>'u\<close>) and are
  assumed not to throw; an \<^verbatim>\<open>await\<close> that is resumed appends the settlement it
  observes to \<open>seen\<close>.
\<close>

type_synonym pid = nat

datatype ('v, 'u) reaction = Callback "'v \<Rightarrow> 'u \<Rightarrow> 'v \<times> 'u" pid | Resume

record ('v, 'x, 'u) cell =
  state :: "('v, 'x) promise"
  reactions :: "('v, 'u) reaction list"

datatype ('v, 'x, 'u) job =
    SettleJob pid "('v, 'x) promise"
  | ReactionJob "('v, 'u) reaction" "('v, 'x) promise"

record ('v, 'x, 'u) store =
  cells :: "('v, 'x, 'u) cell list"
  queue :: "('v, 'x, 'u) job list"
  user :: 'u
  seen :: "('v, 'x) promise list"

definition new_promise ::
  "('v, 'x) promise \<Rightarrow> ('v, 'x, 'u) store \<Rightarrow> pid \<times> ('v, 'x, 'u) store" where
  "new_promise s st =
     (length (cells st), st\<lparr>cells := cells st @ [\<lparr>state = s, reactions = []\<rparr>]\<rparr>)"

text \<open>
  Settling a promise that is already settled does nothing. Settling a pending one
  fixes its state and moves its reactions to the job queue, in the order they were
  registered.
\<close>

definition settle ::
  "pid \<Rightarrow> ('v, 'x) promise \<Rightarrow> ('v, 'x, 'u) store \<Rightarrow> ('v, 'x, 'u) store" where
  "settle p s st =
     (if p < length (cells st) \<and> state (cells st ! p) = Pending then
        st\<lparr>cells := (cells st)[p := \<lparr>state = s, reactions = []\<rparr>],
           queue := queue st @ map (\<lambda>r. ReactionJob r s) (reactions (cells st ! p))\<rparr>
      else st)"

text \<open>
  Registering a reaction: kept by a pending promise, queued at once as a job for a
  settled one. A reference always denotes a cell of the store; for a number that does
  not, nothing happens.
\<close>

definition react ::
  "pid \<Rightarrow> ('v, 'u) reaction \<Rightarrow> ('v, 'x, 'u) store \<Rightarrow> ('v, 'x, 'u) store" where
  "react p r st =
     (if p < length (cells st) then
        (case state (cells st ! p) of
           Pending \<Rightarrow>
             st\<lparr>cells := (cells st)[p := (cells st ! p)\<lparr>reactions := reactions (cells st ! p) @ [r]\<rparr>]\<rparr>
         | Fulfilled v \<Rightarrow> st\<lparr>queue := queue st @ [ReactionJob r (Fulfilled v)]\<rparr>
         | Rejected e \<Rightarrow> st\<lparr>queue := queue st @ [ReactionJob r (Rejected e)]\<rparr>)
      else st)"

text \<open>\<^verbatim>\<open>p.then(onfulfilled)\<close>: a new pending promise \<open>q\<close>, and the callback registered on \<open>p\<close>.\<close>

definition Promise_then_cell ::
  "pid \<Rightarrow> ('v \<Rightarrow> 'u \<Rightarrow> 'v \<times> 'u) \<Rightarrow> ('v, 'x, 'u) store \<Rightarrow> pid \<times> ('v, 'x, 'u) store" where
  "Promise_then_cell p onfulfilled st =
     (case new_promise Pending st of (q, st') \<Rightarrow> (q, react p (Callback onfulfilled q) st'))"

text \<open>
  One job. A callback runs on the fulfilment value and what it returns fulfils the
  promise derived by \<^verbatim>\<open>then\<close>; without a rejection handler a rejection passes on to
  the derived promise.
\<close>

fun run_job :: "('v, 'x, 'u) job \<Rightarrow> ('v, 'x, 'u) store \<Rightarrow> ('v, 'x, 'u) store" where
  "run_job (SettleJob p s) st = settle p s st"
| "run_job (ReactionJob (Callback h q) (Fulfilled v)) st =
     (case h v (user st) of (v', u') \<Rightarrow> settle q (Fulfilled v') (st\<lparr>user := u'\<rparr>))"
| "run_job (ReactionJob (Callback h q) (Rejected e)) st = settle q (Rejected e) st"
| "run_job (ReactionJob (Callback h q) Pending) st = st"
| "run_job (ReactionJob Resume s) st = st\<lparr>seen := seen st @ [s]\<rparr>"

definition run_next :: "('v, 'x, 'u) store \<Rightarrow> ('v, 'x, 'u) store" where
  "run_next st = (case queue st of [] \<Rightarrow> st | j # js \<Rightarrow> run_job j (st\<lparr>queue := js\<rparr>))"

text \<open>The runtime runs jobs until the queue is empty.\<close>

function drain :: "('v, 'x, 'u) store \<Rightarrow> ('v, 'x, 'u) store" where
  "drain st = (if queue st = [] then st else drain (run_next st))"
  by pat_completeness auto

text \<open>The jobs queued and the reactions registered: what is left to run.\<close>

definition work :: "('v, 'x, 'u) store \<Rightarrow> nat" where
  "work st = length (queue st) + sum_list (map (\<lambda>c. length (reactions c)) (cells st))"

text \<open>
  The wrappers over cells. \<^verbatim>\<open>new ResultAsync(promise)\<close> and
  \<^verbatim>\<open>new OptionAsync(promise)\<close> store the reference.
\<close>

datatype wrapper = Wrapper (promise_of: pid)

text \<open>\<^verbatim>\<open>fromResult\<close> and \<^verbatim>\<open>fromOption\<close> of a plain value: \<^verbatim>\<open>Promise.resolve\<close> of it.\<close>

definition fromResult_cell ::
  "('t, 'e) Result \<Rightarrow> (('t, 'e) Result, 'x, 'u) store \<Rightarrow> wrapper \<times> (('t, 'e) Result, 'x, 'u) store" where
  "fromResult_cell result st =
     (case new_promise (Fulfilled result) st of (p, st') \<Rightarrow> (Wrapper p, st'))"


text \<open>
  \<^verbatim>\<open>ResultAsync.try(fn)\<close> with a synchronous callback and no \<^verbatim>\<open>errorFn\<close>. The async
  body starts at once: it calls \<open>fn\<close>, which acts on the caller's variables. If \<open>fn\<close>
  throws, the body returns \<^verbatim>\<open>Err(error)\<close> before the call of \<^verbatim>\<open>try\<close> ends and the
  promise is fulfilled from the start. If \<open>fn\<close> returns, the body is suspended at
  \<^verbatim>\<open>await\<close> and goes on in a later job, which fulfils the promise with
  \<^verbatim>\<open>Ok(value)\<close>.
\<close>

definition try_cell ::
  "('u \<Rightarrow> ('x thrown + 't) \<times> 'u) \<Rightarrow> (('t, 'x thrown) Result, 'x, 'u) store
   \<Rightarrow> wrapper \<times> (('t, 'x thrown) Result, 'x, 'u) store" where
  "try_cell fn st =
     (case fn (user st) of
        (Inr value, u') \<Rightarrow>
          (case new_promise Pending (st\<lparr>user := u'\<rparr>) of
             (p, st') \<Rightarrow> (Wrapper p, st'\<lparr>queue := queue st' @ [SettleJob p (Fulfilled (Ok value))]\<rparr>))
      | (Inl error, u') \<Rightarrow>
          (case new_promise (Fulfilled (Err error)) (st\<lparr>user := u'\<rparr>) of
             (p, st') \<Rightarrow> (Wrapper p, st')))"

text \<open>
  \<^verbatim>\<open>then\<close> of a wrapper hands its arguments to \<^verbatim>\<open>this.promise.then\<close>. Its caller here
  is the runtime, for an \<^verbatim>\<open>await\<close> of the wrapper: the argument is the continuation
  of the awaiting body, and the promise that this \<^verbatim>\<open>then\<close> returns is dropped (it
  gets no cell). The runtime makes the call in a job of its own and resumes the body in
  a further job; these extra turns of the queue change no value and no count, and are
  left out.
\<close>

definition then_cell ::
  "wrapper \<Rightarrow> ('v, 'u) reaction \<Rightarrow> ('v, 'x, 'u) store \<Rightarrow> ('v, 'x, 'u) store" where
  "then_cell this onfulfilled st = react (promise_of this) onfulfilled st"

definition await_cell :: "wrapper \<Rightarrow> ('v, 'x, 'u) store \<Rightarrow> ('v, 'x, 'u) store" where
  "await_cell this st = then_cell this Resume st"

text \<open>
  \<^verbatim>\<open>inspect(fn)\<close> of both wrappers: a new wrapper around
  \<^verbatim>\<open>this.promise.then(callback)\<close>, where the callback calls \<open>fn\<close> on the payload of the
  present variant and returns its argument.
\<close>

definition inspect_callback ::
  "('t \<Rightarrow> 'u \<Rightarrow> 'u) \<Rightarrow> ('t, 'e) Result \<Rightarrow> 'u \<Rightarrow> ('t, 'e) Result \<times> 'u" where
  "inspect_callback fn result u =
     (result, case result of Ok value \<Rightarrow> fn value u | Err error \<Rightarrow> u)"

definition inspect ::
  "wrapper \<Rightarrow> ('t \<Rightarrow> 'u \<Rightarrow> 'u) \<Rightarrow> (('t, 'e) Result, 'x, 'u) store
   \<Rightarrow> wrapper \<times> (('t, 'e) Result, 'x, 'u) store" where
  "inspect this fn st =
     (case Promise_then_cell (promise_of this) (inspect_callback fn) st of
        (q, st') \<Rightarrow> (Wrapper q, st'))"



text \<open>
  A consumer. Starting from the empty store it builds a wrapper (\<open>source\<close>), chains
  one method call on it (\<open>chain\<close>), and then follows a script: awaits of the first
  wrapper, awaits of the chained one and single jobs of the runtime, in any order and
  number. At the end the runtime runs the queue empty.
\<close>

datatype action = AwaitSource | AwaitDerived | RunJob

fun exec :: "wrapper \<Rightarrow> wrapper \<Rightarrow> action list \<Rightarrow> ('v, 'x, 'u) store \<Rightarrow> ('v, 'x, 'u) store" where
  "exec w0 w1 [] st = st"
| "exec w0 w1 (AwaitSource # script) st = exec w0 w1 script (await_cell w0 st)"
| "exec w0 w1 (AwaitDerived # script) st = exec w0 w1 script (await_cell w1 st)"
| "exec w0 w1 (RunJob # script) st = exec w0 w1 script (run_next st)"

fun awaits :: "action list \<Rightarrow> nat" where
  "awaits [] = 0"
| "awaits (RunJob # script) = awaits script"
| "awaits (a # script) = Suc (awaits script)"

definition observe ::
  "(('v, 'x, 'u) store \<Rightarrow> wrapper \<times> ('v, 'x, 'u) store)
   \<Rightarrow> (wrapper \<Rightarrow> ('v, 'x, 'u) store \<Rightarrow> wrapper \<times> ('v, 'x, 'u) store)
   \<Rightarrow> action list \<Rightarrow> 'u \<Rightarrow> ('v, 'x, 'u) store" where
  "observe source chain script u0 =
     (case source \<lparr>cells = [], queue = [], user = u0, seen = []\<rparr> of
        (w0, st1) \<Rightarrow>
          (case chain w0 st1 of
             (w1, st2) \<Rightarrow> drain (exec w0 w1 script st2)))"

text \<open>
  The three shapes the store of such a consumer goes through, for a source that
  resolves to \<open>r\<close> and a chained callback \<open>h\<close>: the source still pending with \<open>k0\<close>
  awaits registered on it and \<open>k1\<close> on the chained promise; the source settled and
  the callback queued; both settled, with \<open>j\<close> awaits still queued and \<open>s\<close> resumed.
\<close>

definition waiting ::
  "('v \<Rightarrow> 'u \<Rightarrow> 'v \<times> 'u) \<Rightarrow> 'v \<Rightarrow> 'u \<Rightarrow> nat \<Rightarrow> nat \<Rightarrow> ('v, 'x, 'u) store" where
  "waiting h r u k0 k1 =
     \<lparr>cells = [\<lparr>state = Pending, reactions = Callback h 1 # replicate k0 Resume\<rparr>,
               \<lparr>state = Pending, reactions = replicate k1 Resume\<rparr>],
      queue = [SettleJob 0 (Fulfilled r)], user = u, seen = []\<rparr>"

definition source_settled ::
  "('v \<Rightarrow> 'u \<Rightarrow> 'v \<times> 'u) \<Rightarrow> 'v \<Rightarrow> 'u \<Rightarrow> nat \<Rightarrow> nat \<Rightarrow> ('v, 'x, 'u) store" where
  "source_settled h r u k0 k1 =
     \<lparr>cells = [\<lparr>state = Fulfilled r, reactions = []\<rparr>,
               \<lparr>state = Pending, reactions = replicate k1 Resume\<rparr>],
      queue = ReactionJob (Callback h 1) (Fulfilled r)
                # replicate k0 (ReactionJob Resume (Fulfilled r)),
      user = u, seen = []\<rparr>"

definition both_settled :: "'v \<Rightarrow> 'u \<Rightarrow> nat \<Rightarrow> nat \<Rightarrow> ('v, 'x, 'u) store" where
  "both_settled r u j s =
     \<lparr>cells = [\<lparr>state = Fulfilled r, reactions = []\<rparr>, \<lparr>state = Fulfilled r, reactions = []\<rparr>],
      queue = replicate j (ReactionJob Resume (Fulfilled r)),
      user = u, seen = replicate s (Fulfilled r)\<rparr>"

inductive reach ::
  "('v \<Rightarrow> 'u \<Rightarrow> 'v \<times> 'u) \<Rightarrow> 'v \<Rightarrow> 'u \<Rightarrow> nat \<Rightarrow> ('v, 'x, 'u) store \<Rightarrow> bool"
  for h r u where
    reach_waiting: "reach h r u (k0 + k1) (waiting h r u k0 k1)"
  | reach_source_settled: "reach h r u (k0 + k1) (source_settled h r u k0 k1)"
  | reach_both_settled: "reach h r u (j + s) (both_settled r (snd (h r u)) j s)"


section \<open>The synchronous sum types: theorems\<close>

text \<open>
  C3. \<^verbatim>\<open>Some(x).map(f).unwrap()\<close> is \<^verbatim>\<open>f(x)\<close>: the same value or the same throw, and
  the same effect on the world. On the absent variant \<^verbatim>\<open>map\<close> and \<^verbatim>\<open>and_then\<close>
  return the absent variant whatever the function is and leave the world as it was, so
  the function is not invoked; \<^verbatim>\<open>Err(e).and_then(f)\<close> returns \<^verbatim>\<open>Err(e)\<close> with its
  payload.
\<close>

theorem map_unwrap_and_short_circuit:
  "seq (map_o (OptionSome x) f) (\<lambda>opt. lift (unwrap opt)) = f x
   \<and> map_o OptionNone f w = (Inr OptionNone, w)
   \<and> and_then OptionNone g w = (Inr OptionNone, w)
   \<and> and_then_r (Err e) h w = (Inr (Err e), w)"
  by (auto simp: seq_def ret_def lift_def fun_eq_iff split: sum.splits prod.splits)

text \<open>
  Resolving with a value that has no \<^verbatim>\<open>then\<close> fulfils with it; a thenable is
  followed.
\<close>

lemma resolve_value_plain: "then_of v = None \<Longrightarrow> resolve_value then_of v = Fulfilled v"
  by (subst resolve_value_def, subst resolve_chain.simps) simp

lemma resolve_value_rejected:
  "then_of v = Some (Rejected e) \<Longrightarrow> resolve_value then_of v = Rejected e"
  by (subst resolve_value_def, subst resolve_chain.simps) simp

lemma resolve_value_pending:
  "then_of v = Some Pending \<Longrightarrow> resolve_value then_of v = Pending"
  by (subst resolve_value_def, subst resolve_chain.simps) simp

lemma resolve_value_follow:
  "then_of v = Some (Fulfilled y) \<Longrightarrow> resolve_value then_of v = resolve_value then_of y"
  by (subst resolve_value_def, subst resolve_chain.simps) (simp add: resolve_value_def)

text \<open>
  C4. On the absent variant \<^verbatim>\<open>expect(msg)\<close> throws an \<^verbatim>\<open>Error\<close> whose message is
  \<open>msg\<close> itself and \<^verbatim>\<open>unwrap()\<close> throws an \<^verbatim>\<open>Error\<close>, for \<open>OptionNone\<close> and for
  \<open>Err\<close>; on the present variant both return the payload. The async versions of both
  wrappers reject with that same \<^verbatim>\<open>Error\<close> when the wrapper resolves to the absent
  variant. When it resolves to the present variant their promise is resolved with the
  payload, which means fulfilled with it for a payload that is not a thenable.
\<close>

theorem unwrap_expect_fail_on_absent:
  "expect OptionNone msg = Inl (Error msg)
   \<and> unwrap OptionNone = Inl (Error ''Called Option.unwrap() on a None value'')
   \<and> expect (OptionSome v) msg = Inr v
   \<and> unwrap (OptionSome v) = Inr v
   \<and> expect_r (Err e) msg = Inl (Error msg)
   \<and> unwrap_r to_string (Err e)
       = Inl (Error (''Called Result.unwrap() on an Err value: '' @ to_string e))
   \<and> expect_r (Ok v) msg = Inr v
   \<and> unwrap_r to_string (Ok v) = Inr v
   \<and> OptionAsync_expect then_of (OptionAsync (Fulfilled OptionNone)) msg = Rejected (Error msg)
   \<and> OptionAsync_unwrap then_of (OptionAsync (Fulfilled OptionNone))
       = Rejected (Error ''Called Option.unwrap() on a None value'')
   \<and> ResultAsync_expect then_of (ResultAsync (Fulfilled (Err e))) msg = Rejected (Error msg)
   \<and> ResultAsync_unwrap then_of to_string (ResultAsync (Fulfilled (Err e)))
       = Rejected (Error (''Called Result.unwrap() on an Err value: '' @ to_string e))
   \<and> OptionAsync_expect then_of (OptionAsync (Fulfilled (OptionSome v))) msg
       = resolve_value then_of v
   \<and> OptionAsync_unwrap then_of (OptionAsync (Fulfilled (OptionSome v)))
       = resolve_value then_of v
   \<and> ResultAsync_expect then_of (ResultAsync (Fulfilled (Ok v))) msg = resolve_value then_of v
   \<and> ResultAsync_unwrap then_of to_string (ResultAsync (Fulfilled (Ok v)))
       = resolve_value then_of v
   \<and> (then_of v = None \<longrightarrow> resolve_value then_of v = Fulfilled v)"
  by (simp add: OptionAsync_expect_def OptionAsync_unwrap_def ResultAsync_expect_def
      ResultAsync_unwrap_def resolve_value_plain)

theorem unwrap_expect_fail_on_absent_witness:
  "OptionAsync_expect then_member (OptionAsync_none :: (jsval, jsval) OptionAsync)
       ''custom message'' = Rejected (Error ''custom message'')
   \<and> ResultAsync_expect then_member
         (ResultAsync_err (Str ''error'') :: (jsval, jsval, jsval) ResultAsync)
       ''custom message'' = Rejected (Error ''custom message'')
   \<and> OptionAsync_expect then_member (OptionAsync_some (Num 42)) ''should not fail''
       = Fulfilled (Num 42)
   \<and> ResultAsync_unwrap then_member (\<lambda>e. ''error'')
         (ResultAsync_ok (Num 42) :: (jsval, jsval, jsval) ResultAsync)
       = Fulfilled (Num 42)"
  using unwrap_expect_fail_on_absent
    [where then_of = then_member and v = "Num 42" and msg = "''custom message''"
       and e = "Str ''error''" and to_string = "\<lambda>e. ''error''"]
    unwrap_expect_fail_on_absent
    [where then_of = then_member and v = "Num 42" and msg = "''should not fail''"
       and e = "Str ''error''" and to_string = "\<lambda>e. ''error''"]
  by (auto simp: OptionAsync_none_def OptionAsync_some_def ResultAsync_err_def ResultAsync_ok_def)

text \<open>
  C6. \<^verbatim>\<open>Some(5).take()\<close> returns \<^verbatim>\<open>Some(5)\<close>, and the receiver is afterwards an
  \<open>OptionSome\<close> whose field is \<^verbatim>\<open>undefined\<close>: \<^verbatim>\<open>is_some()\<close> is still true,
  \<^verbatim>\<open>is_none()\<close> false, and \<^verbatim>\<open>unwrap()\<close> returns \<^verbatim>\<open>undefined\<close>. The interface
  comment of \<^verbatim>\<open>take\<close> promises "leaving a None in its place".
\<close>

theorem take_leaves_some_undefined:
  "take_o (OptionSome (Val (5::int))) = (OptionSome (Val 5), OptionSome Undefined)
   \<and> is_some (snd (take_o (OptionSome (Val (5::int)))))
   \<and> \<not> is_none (snd (take_o (OptionSome (Val (5::int)))))
   \<and> (unwrap (snd (take_o (OptionSome (Val (5::int))))) :: unit thrown + int js) = Inr Undefined"
  by simp

text \<open>
  C7. \<^verbatim>\<open>replace(v)\<close> on \<^verbatim>\<open>Some(x)\<close> returns \<^verbatim>\<open>Some(x)\<close> and leaves the receiver
  holding \<open>v\<close>; on \<open>None\<close> it returns \<^verbatim>\<open>Some(v)\<close> and the receiver stays \<open>None\<close>.
\<close>

theorem replace_swaps:
  "replace_o (OptionSome x) v = (OptionSome x, OptionSome v)
   \<and> replace_o OptionNone v = (OptionSome v, OptionNone)"
  by simp


section \<open>The async wrappers: theorems\<close>

text \<open>
  While the handles at the front of the list resolve to the present variant, the loop
  of \<^verbatim>\<open>all\<close> moves their payloads to \<^verbatim>\<open>values\<close> in order and goes on with the rest.
\<close>

lemma ResultAsync_all_loop_ok_prefix:
  "map ResultAsync.promise pre = map (\<lambda>v. Fulfilled (Ok v)) vs \<Longrightarrow>
   ResultAsync_all_loop (pre @ rest) acc awaited =
   ResultAsync_all_loop rest (acc @ vs) (awaited @ pre)"
proof (induction pre arbitrary: vs acc awaited)
  case Nil
  then show ?case by simp
next
  case (Cons h pre)
  then obtain v vs' where vs: "vs = v # vs'" by (cases vs) auto
  with Cons.prems have h: "ResultAsync.promise h = Fulfilled (Ok v)"
    and pre: "map ResultAsync.promise pre = map (\<lambda>v. Fulfilled (Ok v)) vs'" by auto
  show ?case
    using Cons.IH [OF pre] h vs by (simp add: await_def ResultAsync_then_def)
qed

lemma OptionAsync_all_loop_some_prefix:
  "map OptionAsync.promise pre = map (\<lambda>v. Fulfilled (OptionSome v)) vs \<Longrightarrow>
   OptionAsync_all_loop (pre @ rest) acc awaited =
   OptionAsync_all_loop rest (acc @ vs) (awaited @ pre)"
proof (induction pre arbitrary: vs acc awaited)
  case Nil
  then show ?case by simp
next
  case (Cons h pre)
  then obtain v vs' where vs: "vs = v # vs'" by (cases vs) auto
  with Cons.prems have h: "OptionAsync.promise h = Fulfilled (OptionSome v)"
    and pre: "map OptionAsync.promise pre = map (\<lambda>v. Fulfilled (OptionSome v)) vs'" by auto
  show ?case
    using Cons.IH [OF pre] h vs by (simp add: await_def OptionAsync_then_def)
qed

text \<open>
  C1. When the handles before \<open>h\<close> resolve to \<open>Ok\<close> and \<open>h\<close> resolves to \<open>Err e\<close>,
  \<^verbatim>\<open>ResultAsync.all\<close> resolves to \<open>Err e\<close> and has awaited exactly the handles up to
  \<open>h\<close>, in order; the handles after \<open>h\<close> are arbitrary (they may reject or never
  settle) and are not awaited. When every handle resolves to \<open>Ok\<close>, it resolves to
  \<open>Ok\<close> of the payloads in input order, having awaited every handle in order. The same
  for \<^verbatim>\<open>OptionAsync.all\<close> with \<open>OptionSome\<close> and \<open>OptionNone\<close>.
\<close>

theorem all_first_failure_in_index_order:
  "(map ResultAsync.promise pre = map (\<lambda>v. Fulfilled (Ok v)) vs \<longrightarrow>
      ResultAsync.promise h = Fulfilled (Err e) \<longrightarrow>
      ResultAsync_all (pre @ h # post) = (ResultAsync (Fulfilled (Err e)), pre @ [h]))
   \<and> (map ResultAsync.promise hs = map (\<lambda>v. Fulfilled (Ok v)) ws \<longrightarrow>
      ResultAsync_all hs = (ResultAsync (Fulfilled (Ok ws)), hs))
   \<and> (map OptionAsync.promise pre' = map (\<lambda>v. Fulfilled (OptionSome v)) vs' \<longrightarrow>
      OptionAsync.promise h' = Fulfilled OptionNone \<longrightarrow>
      OptionAsync_all (pre' @ h' # post') = (OptionAsync (Fulfilled OptionNone), pre' @ [h']))
   \<and> (map OptionAsync.promise hs' = map (\<lambda>v. Fulfilled (OptionSome v)) ws' \<longrightarrow>
      OptionAsync_all hs' = (OptionAsync (Fulfilled (OptionSome ws')), hs'))"
proof (intro conjI impI)
  assume "map ResultAsync.promise pre = map (\<lambda>v. Fulfilled (Ok v)) vs"
    and "ResultAsync.promise h = Fulfilled (Err e)"
  then show "ResultAsync_all (pre @ h # post) = (ResultAsync (Fulfilled (Err e)), pre @ [h])"
    by (simp add: ResultAsync_all_def ResultAsync_all_loop_ok_prefix await_def
        ResultAsync_then_def)
next
  assume "map ResultAsync.promise hs = map (\<lambda>v. Fulfilled (Ok v)) ws"
  then have "ResultAsync_all_loop (hs @ []) [] [] = ResultAsync_all_loop [] ([] @ ws) ([] @ hs)"
    by (rule ResultAsync_all_loop_ok_prefix)
  then show "ResultAsync_all hs = (ResultAsync (Fulfilled (Ok ws)), hs)"
    by (simp add: ResultAsync_all_def)
next
  assume "map OptionAsync.promise pre' = map (\<lambda>v. Fulfilled (OptionSome v)) vs'"
    and "OptionAsync.promise h' = Fulfilled OptionNone"
  then show "OptionAsync_all (pre' @ h' # post') = (OptionAsync (Fulfilled OptionNone), pre' @ [h'])"
    by (simp add: OptionAsync_all_def OptionAsync_all_loop_some_prefix await_def
        OptionAsync_then_def)
next
  assume "map OptionAsync.promise hs' = map (\<lambda>v. Fulfilled (OptionSome v)) ws'"
  then have "OptionAsync_all_loop (hs' @ []) [] [] = OptionAsync_all_loop [] ([] @ ws') ([] @ hs')"
    by (rule OptionAsync_all_loop_some_prefix)
  then show "OptionAsync_all hs' = (OptionAsync (Fulfilled (OptionSome ws')), hs')"
    by (simp add: OptionAsync_all_def)
qed

theorem all_first_failure_in_index_order_witness:
  "ResultAsync_all [ResultAsync_ok (1::int), ResultAsync_err ''x'', ResultAsync (Pending :: ((int, string) Result, unit) promise)]
     = (ResultAsync (Fulfilled (Err ''x'')), [ResultAsync_ok 1, ResultAsync_err ''x''])
   \<and> ResultAsync_all [ResultAsync_ok (1::int), ResultAsync_ok 2, ResultAsync_ok 3 :: (int, string, unit) ResultAsync]
     = (ResultAsync (Fulfilled (Ok [1, 2, 3])), [ResultAsync_ok 1, ResultAsync_ok 2, ResultAsync_ok 3])
   \<and> OptionAsync_all [OptionAsync_some (1::int), OptionAsync_none, OptionAsync (Rejected (Thrown ()))]
     = (OptionAsync (Fulfilled OptionNone), [OptionAsync_some 1, OptionAsync_none])
   \<and> OptionAsync_all [OptionAsync_some (1::int), OptionAsync_some 2, OptionAsync_some 3 :: (int, unit) OptionAsync]
     = (OptionAsync (Fulfilled (OptionSome [1, 2, 3])), [OptionAsync_some 1, OptionAsync_some 2, OptionAsync_some 3])"
  using all_first_failure_in_index_order
    [where pre = "[ResultAsync_ok (1::int)]" and vs = "[1]" and h = "ResultAsync_err ''x''"
       and e = "''x''" and post = "[ResultAsync (Pending :: ((int, string) Result, unit) promise)]"
       and hs = "[ResultAsync_ok (1::int), ResultAsync_ok 2, ResultAsync_ok 3 :: (int, string, unit) ResultAsync]"
       and ws = "[1, 2, 3]"
       and pre' = "[OptionAsync_some (1::int)]" and vs' = "[1]"
       and h' = "OptionAsync_none :: (int, unit) OptionAsync"
       and post' = "[OptionAsync (Rejected (Thrown ()))]"
       and hs' = "[OptionAsync_some (1::int), OptionAsync_some 2, OptionAsync_some 3 :: (int, unit) OptionAsync]"
       and ws' = "[1, 2, 3]"]
  by (simp add: ResultAsync_ok_def ResultAsync_err_def OptionAsync_some_def OptionAsync_none_def)

text \<open>
  The loop of \<^verbatim>\<open>allSettled\<close> over handles that all resolve: every error goes to
  \<^verbatim>\<open>errors\<close>, every payload to \<^verbatim>\<open>values\<close>, in order, and every handle is awaited.
\<close>

lemma allSettled_loop_fulfilled:
  "map ResultAsync.promise hs = map Fulfilled rs \<Longrightarrow>
   allSettled_loop hs acc errs awaited =
   (if errs @ [e. Err e \<leftarrow> rs] \<noteq> [] then Fulfilled (Err (errs @ [e. Err e \<leftarrow> rs]))
    else Fulfilled (Ok (acc @ [v. Ok v \<leftarrow> rs])), awaited @ hs)"
proof (induction hs arbitrary: rs acc errs awaited)
  case Nil
  then show ?case by simp
next
  case (Cons h hs)
  then obtain r rs' where rs: "rs = r # rs'" by (cases rs) auto
  with Cons.prems have h: "ResultAsync.promise h = Fulfilled r"
    and hs: "map ResultAsync.promise hs = map Fulfilled rs'" by auto
  show ?case
    using Cons.IH [OF hs] h rs
    by (cases r) (simp_all add: await_def ResultAsync_then_def)
qed

text \<open>
  C2. For handles that all resolve, \<^verbatim>\<open>allSettled\<close> awaits every one of them in
  order. If at least one resolves to \<open>Err\<close>, the aggregate resolves to \<open>Err\<close> of all
  the error payloads in index order; if every handle resolves to \<open>Ok\<close>, it resolves to
  \<open>Ok\<close> of the payloads in index order.
\<close>

theorem allSettled_collects_every_error:
  "(map ResultAsync.promise hs = map Fulfilled rs \<longrightarrow> list_ex is_err rs \<longrightarrow>
      allSettled hs = (ResultAsync (Fulfilled (Err [e. Err e \<leftarrow> rs])), hs))
   \<and> (map ResultAsync.promise hs' = map (\<lambda>v. Fulfilled (Ok v)) vs \<longrightarrow>
      allSettled hs' = (ResultAsync (Fulfilled (Ok vs)), hs'))"
proof (intro conjI impI)
  assume hs: "map ResultAsync.promise hs = map Fulfilled rs" and ex: "list_ex is_err rs"
  have "[e. Err e \<leftarrow> rs] \<noteq> []"
    using ex
  proof (induction rs)
    case Nil
    then show ?case by simp
  next
    case (Cons r rs)
    then show ?case by (cases r) auto
  qed
  with allSettled_loop_fulfilled [OF hs, of "[]" "[]" "[]"]
  show "allSettled hs = (ResultAsync (Fulfilled (Err [e. Err e \<leftarrow> rs])), hs)"
    by (simp add: allSettled_def)
next
  assume "map ResultAsync.promise hs' = map (\<lambda>v. Fulfilled (Ok v)) vs"
  then have hs': "map ResultAsync.promise hs' = map Fulfilled (map Ok vs)" by simp
  have "[e. Err e \<leftarrow> map Ok vs] = []" "[v. Ok v \<leftarrow> map Ok vs] = vs"
    by (induction vs) auto
  with allSettled_loop_fulfilled [OF hs', of "[]" "[]" "[]"]
  show "allSettled hs' = (ResultAsync (Fulfilled (Ok vs)), hs')"
    by (simp add: allSettled_def)
qed

theorem allSettled_collects_every_error_witness:
  "allSettled [ResultAsync_ok (1::int), ResultAsync_err ''a'', ResultAsync_err ''b'' :: (int, string, unit) ResultAsync]
     = (ResultAsync (Fulfilled (Err [''a'', ''b''])),
        [ResultAsync_ok 1, ResultAsync_err ''a'', ResultAsync_err ''b''])
   \<and> allSettled [ResultAsync_ok (1::int), ResultAsync_ok 2 :: (int, string, unit) ResultAsync]
     = (ResultAsync (Fulfilled (Ok [1, 2])), [ResultAsync_ok 1, ResultAsync_ok 2])"
  using allSettled_collects_every_error
    [where hs = "[ResultAsync_ok (1::int), ResultAsync_err ''a'', ResultAsync_err ''b'' :: (int, string, unit) ResultAsync]"
       and rs = "[Ok 1, Err ''a'', Err ''b'']"
       and hs' = "[ResultAsync_ok (1::int), ResultAsync_ok 2 :: (int, string, unit) ResultAsync]"
       and vs = "[1, 2]"]
  by (simp add: ResultAsync_ok_def ResultAsync_err_def)

text \<open>
  C10. On the empty list \<^verbatim>\<open>ResultAsync.all\<close> and \<^verbatim>\<open>allSettled\<close> resolve to
  \<open>Ok []\<close> and \<^verbatim>\<open>OptionAsync.all\<close> to \<open>OptionSome []\<close>; nothing is awaited.
\<close>

theorem all_of_nothing:
  "ResultAsync_all [] = (ResultAsync (Fulfilled (Ok [])), [])
   \<and> allSettled [] = (ResultAsync (Fulfilled (Ok [])), [])
   \<and> OptionAsync_all [] = (OptionAsync (Fulfilled (OptionSome [])), [])"
  by (simp add: ResultAsync_all_def allSettled_def OptionAsync_all_def)

text \<open>
  C5. A callback that throws when called, or returns a promise that rejects, or returns
  a thenable (a wrapper, say) whose \<^verbatim>\<open>then\<close> rejects, makes \<^verbatim>\<open>OptionAsync.try\<close>
  resolve to \<open>OptionNone\<close> and \<^verbatim>\<open>ResultAsync.try\<close> resolve to \<open>Err\<close> of the caught
  value, or of its image under the mapping function \<open>g\<close> when one is given. A
  callback that returns normally makes them resolve to \<open>OptionSome\<close> and \<open>Ok\<close> of the
  returned value: the value itself when it has no \<^verbatim>\<open>then\<close>, and for a promise or a
  thenable the value it hands over.
\<close>

theorem try_converts_throw_to_failure:
  "OptionAsync_try then_of (\<lambda>_. Inl e) = OptionAsync (Fulfilled OptionNone)
   \<and> OptionAsync_try then_of (\<lambda>_. Inr (Promised (Rejected e)))
       = OptionAsync (Fulfilled OptionNone)
   \<and> (then_of w = Some (Rejected e) \<longrightarrow>
        OptionAsync_try then_of (\<lambda>_. Inr (Plain w)) = OptionAsync (Fulfilled OptionNone))
   \<and> (then_of v = None \<longrightarrow>
        OptionAsync_try then_of (\<lambda>_. Inr (Plain v)) = OptionAsync (Fulfilled (OptionSome v)))
   \<and> OptionAsync_try then_of (\<lambda>_. Inr (Promised (Fulfilled v)))
       = OptionAsync (Fulfilled (OptionSome v))
   \<and> (then_of w = Some (Fulfilled v) \<longrightarrow> then_of v = None \<longrightarrow>
        OptionAsync_try then_of (\<lambda>_. Inr (Plain w)) = OptionAsync (Fulfilled (OptionSome v)))
   \<and> ResultAsync_try then_of (\<lambda>_. Inl e) None = ResultAsync (Fulfilled (Err e))
   \<and> ResultAsync_try then_of (\<lambda>_. Inr (Promised (Rejected e))) None
       = ResultAsync (Fulfilled (Err e))
   \<and> (then_of w = Some (Rejected e) \<longrightarrow>
        ResultAsync_try then_of (\<lambda>_. Inr (Plain w)) None = ResultAsync (Fulfilled (Err e)))
   \<and> ResultAsync_try then_of (\<lambda>_. Inl e) (Some (\<lambda>x. Inr (g x)))
       = ResultAsync (Fulfilled (Err (g e)))
   \<and> ResultAsync_try then_of (\<lambda>_. Inr (Promised (Rejected e))) (Some (\<lambda>x. Inr (g x)))
       = ResultAsync (Fulfilled (Err (g e)))
   \<and> (then_of w = Some (Rejected e) \<longrightarrow>
        ResultAsync_try then_of (\<lambda>_. Inr (Plain w)) (Some (\<lambda>x. Inr (g x)))
        = ResultAsync (Fulfilled (Err (g e))))
   \<and> (then_of v = None \<longrightarrow>
        ResultAsync_try then_of (\<lambda>_. Inr (Plain v)) errorFn = ResultAsync (Fulfilled (Ok v)))
   \<and> ResultAsync_try then_of (\<lambda>_. Inr (Promised (Fulfilled v))) errorFn
       = ResultAsync (Fulfilled (Ok v))
   \<and> (then_of w = Some (Fulfilled v) \<longrightarrow> then_of v = None \<longrightarrow>
        ResultAsync_try then_of (\<lambda>_. Inr (Plain w)) errorFn = ResultAsync (Fulfilled (Ok v)))"
  by (simp add: OptionAsync_try_def ResultAsync_try_def mapError_def resolve_value_plain
      resolve_value_rejected resolve_value_follow)

theorem try_converts_throw_to_failure_witness:
  "OptionAsync_try then_member
       (\<lambda>_. Inr (Plain (OptionAsyncV (OptionAsync (Rejected (Thrown (Str ''boom'')))))))
     = OptionAsync (Fulfilled OptionNone)
   \<and> OptionAsync_try then_member (\<lambda>_. Inr (Plain (Num 42)))
     = OptionAsync (Fulfilled (OptionSome (Num 42)))
   \<and> OptionAsync_try then_member (\<lambda>_. Inr (Plain (OptionAsyncV (OptionAsync_some (Num 42)))))
     = OptionAsync (Fulfilled (OptionSome (OptionV (OptionSome (Num 42)))))
   \<and> ResultAsync_try then_member
       (\<lambda>_. Inr (Plain (ResultAsyncV (ResultAsync (Rejected (Thrown (Str ''boom''))))))) None
     = ResultAsync (Fulfilled (Err (Thrown (Str ''boom''))))
   \<and> ResultAsync_try then_member
       (\<lambda>_. Inr (Plain (ResultAsyncV (ResultAsync (Rejected (Thrown (Str ''boom'')))))))
       (Some (\<lambda>x. Inr (Error ''mapped'')))
     = ResultAsync (Fulfilled (Err (Error ''mapped'')))
   \<and> ResultAsync_try then_member (\<lambda>_. Inr (Plain (Num 42))) None
     = ResultAsync (Fulfilled (Ok (Num 42)))
   \<and> ResultAsync_try then_member
       (\<lambda>_. Inr (Plain (ResultAsyncV (ResultAsync_err (Str ''x''))))) None
     = ResultAsync (Fulfilled (Ok (ResultV (Err (Str ''x'')))))"
  using try_converts_throw_to_failure
    [where then_of = then_member
       and w = "OptionAsyncV (OptionAsync (Rejected (Thrown (Str ''boom''))))"
       and e = "Thrown (Str ''boom'')" and v = "Num 42"]
    try_converts_throw_to_failure
    [where then_of = then_member
       and w = "OptionAsyncV (OptionAsync_some (Num 42))"
       and v = "OptionV (OptionSome (Num 42))"]
    try_converts_throw_to_failure
    [where then_of = then_member
       and w = "ResultAsyncV (ResultAsync (Rejected (Thrown (Str ''boom''))))"
       and e = "Thrown (Str ''boom'')" and v = "Num 42" and g = "\<lambda>x. Error ''mapped''"
       and errorFn = None]
    try_converts_throw_to_failure
    [where then_of = then_member
       and w = "ResultAsyncV (ResultAsync_err (Str ''x''))"
       and v = "ResultV (Err (Str ''x''))" and errorFn = None]
  by (auto simp: OptionAsync_then_def ResultAsync_then_def OptionAsync_some_def
      ResultAsync_err_def)

text \<open>
  C8. Awaiting \<^verbatim>\<open>v.toAsync()\<close> resumes with \<open>v\<close> itself, for every \<open>Result\<close> and
  every \<open>Option\<close>.
\<close>

theorem toAsync_then_await:
  "await (ResultAsync_then (toAsync_r v)) = Fulfilled v
   \<and> await (OptionAsync_then (toAsync_o opt)) = Fulfilled opt"
  by (simp add: await_def ResultAsync_then_def OptionAsync_then_def toAsync_r_def toAsync_o_def
      fromResult_def fromOption_def)


section \<open>The job queue: theorems\<close>

text \<open>Every job takes one unit of work away, so the runtime's loop ends.\<close>

lemma sum_list_map_update:
  fixes f :: "'a \<Rightarrow> nat"
  shows "p < length xs \<Longrightarrow> sum_list (map f (xs[p := y])) + f (xs ! p) = sum_list (map f xs) + f y"
proof (induction xs arbitrary: p)
  case Nil
  then show ?case by simp
next
  case (Cons x xs)
  then show ?case by (cases p) auto
qed

lemma work_settle: "work (settle p s st) = work st"
proof (cases "p < length (cells st) \<and> state (cells st ! p) = Pending")
  case True
  then have "sum_list (map (\<lambda>c. length (reactions c)) ((cells st)[p := \<lparr>state = s, reactions = []\<rparr>]))
      + length (reactions (cells st ! p))
    = sum_list (map (\<lambda>c. length (reactions c)) (cells st))"
    using sum_list_map_update [of p "cells st" "\<lambda>c. length (reactions c)" "\<lparr>state = s, reactions = []\<rparr>"]
    by simp
  with True show ?thesis by (simp add: settle_def work_def)
next
  case False
  then show ?thesis by (auto simp: settle_def)
qed

lemma work_run_job: "work (run_job j st) = work st"
proof (cases j)
  case (SettleJob p s)
  then show ?thesis by (simp add: work_settle)
next
  case (ReactionJob r s)
  show ?thesis
  proof (cases r)
    case (Callback h q)
    then show ?thesis
      using ReactionJob
      by (cases s) (auto simp: work_settle split: prod.splits, simp add: work_def)
  next
    case Resume
    then show ?thesis using ReactionJob by (simp add: work_def)
  qed
qed

lemma work_run_next: "queue st \<noteq> [] \<Longrightarrow> work (run_next st) < work st"
  by (cases "queue st") (auto simp: run_next_def work_run_job, simp add: work_def)

termination drain
  by (relation "measure work") (auto simp: work_run_next)

declare drain.simps [simp del]

lemma drain_done: "queue st = [] \<Longrightarrow> drain st = st"
  by (subst drain.simps) simp

lemma drain_step: "queue st \<noteq> [] \<Longrightarrow> drain st = drain (run_next st)"
  by (subst drain.simps) simp

text \<open>What an await and a job do to each of the three shapes.\<close>

lemma await_waiting:
  "await_cell (Wrapper 0) (waiting h r u k0 k1) = waiting h r u (Suc k0) k1"
  "await_cell (Wrapper (Suc 0)) (waiting h r u k0 k1) = waiting h r u k0 (Suc k1)"
  by (simp_all add: await_cell_def then_cell_def react_def waiting_def replicate_append_same)

lemma await_source_settled:
  "await_cell (Wrapper 0) (source_settled h r u k0 k1) = source_settled h r u (Suc k0) k1"
  "await_cell (Wrapper (Suc 0)) (source_settled h r u k0 k1) = source_settled h r u k0 (Suc k1)"
  by (simp_all add: await_cell_def then_cell_def react_def source_settled_def
      replicate_append_same)

lemma await_both_settled:
  "await_cell (Wrapper 0) (both_settled r u j s) = both_settled r u (Suc j) s"
  "await_cell (Wrapper (Suc 0)) (both_settled r u j s) = both_settled r u (Suc j) s"
  by (simp_all add: await_cell_def then_cell_def react_def both_settled_def
      replicate_append_same)

lemma run_next_waiting:
  "run_next (waiting h r u k0 k1) = source_settled h r u k0 k1"
  by (simp add: run_next_def waiting_def source_settled_def settle_def)

lemma run_next_source_settled:
  "fst (h r u) = r \<Longrightarrow>
   run_next (source_settled h r u k0 k1) = both_settled r (snd (h r u)) (k0 + k1) 0"
  by (cases "h r u")
    (simp add: run_next_def source_settled_def both_settled_def settle_def replicate_add)

lemma run_next_both_settled:
  "run_next (both_settled r u (Suc j) s) = both_settled r u j (Suc s)"
  "run_next (both_settled r u 0 s) = both_settled r u 0 s"
  by (simp_all add: run_next_def both_settled_def replicate_append_same)

lemma reach_await_source:
  assumes "reach h r u n st"
  shows "reach h r u (Suc n) (await_cell (Wrapper 0) st)"
  using assms
proof cases
  case (reach_waiting k0 k1)
  with reach.reach_waiting [of h r u "Suc k0" k1] show ?thesis
    by (simp add: await_waiting)
next
  case (reach_source_settled k0 k1)
  with reach.reach_source_settled [of h r u "Suc k0" k1] show ?thesis
    by (simp add: await_source_settled)
next
  case (reach_both_settled j s)
  with reach.reach_both_settled [of h r u "Suc j" s] show ?thesis
    by (simp add: await_both_settled)
qed

lemma reach_await_derived:
  assumes "reach h r u n st"
  shows "reach h r u (Suc n) (await_cell (Wrapper (Suc 0)) st)"
  using assms
proof cases
  case (reach_waiting k0 k1)
  with reach.reach_waiting [of h r u k0 "Suc k1"] show ?thesis
    by (simp add: await_waiting)
next
  case (reach_source_settled k0 k1)
  with reach.reach_source_settled [of h r u k0 "Suc k1"] show ?thesis
    by (simp add: await_source_settled)
next
  case (reach_both_settled j s)
  with reach.reach_both_settled [of h r u "Suc j" s] show ?thesis
    by (simp add: await_both_settled)
qed

lemma reach_run_next:
  assumes "reach h r u n st" and ret: "fst (h r u) = r"
  shows "reach h r u n (run_next st)"
  using assms(1)
proof cases
  case (reach_waiting k0 k1)
  with reach.reach_source_settled [of h r u k0 k1] show ?thesis
    by (simp add: run_next_waiting)
next
  case (reach_source_settled k0 k1)
  with reach.reach_both_settled [of h r u "k0 + k1" 0] show ?thesis
    by (simp add: run_next_source_settled [where h = h and r = r and u = u, OF ret])
next
  case (reach_both_settled j s)
  show ?thesis
  proof (cases j)
    case 0
    with reach_both_settled reach.reach_both_settled [of h r u 0 s] show ?thesis
      by (simp add: run_next_both_settled)
  next
    case (Suc j')
    with reach_both_settled reach.reach_both_settled [of h r u j' "Suc s"] show ?thesis
      by (simp add: run_next_both_settled)
  qed
qed

lemma reach_exec:
  assumes ret: "fst (h r u) = r"
  shows "reach h r u n st \<Longrightarrow>
   reach h r u (n + awaits script) (exec (Wrapper 0) (Wrapper (Suc 0)) script st)"
proof (induction script arbitrary: n st)
  case Nil
  then show ?case by simp
next
  case (Cons a script)
  show ?case
  proof (cases a)
    case AwaitSource
    with Cons.IH [OF reach_await_source [OF Cons.prems]] show ?thesis by simp
  next
    case AwaitDerived
    with Cons.IH [OF reach_await_derived [OF Cons.prems]] show ?thesis by simp
  next
    case RunJob
    with Cons.IH [OF reach_run_next [OF Cons.prems ret]] show ?thesis by simp
  qed
qed

lemma queue_nonempty:
  "queue (both_settled r u (Suc j) s) \<noteq> []"
  "queue (source_settled h r u k0 k1) \<noteq> []"
  "queue (waiting h r u k0 k1) \<noteq> []"
  by (simp_all add: both_settled_def source_settled_def waiting_def)

lemma drain_both_settled: "drain (both_settled r u j s) = both_settled r u 0 (j + s)"
proof (induction j arbitrary: s)
  case 0
  show ?case by (simp add: drain_done both_settled_def)
next
  case (Suc j)
  show ?case
    by (simp add: drain_step queue_nonempty run_next_both_settled Suc.IH)
qed

lemma drain_source_settled:
  assumes ret: "fst (h r u) = r"
  shows "drain (source_settled h r u k0 k1) = both_settled r (snd (h r u)) 0 (k0 + k1)"
  by (simp add: drain_step queue_nonempty drain_both_settled
      run_next_source_settled [where h = h and r = r and u = u, OF ret])

lemma drain_waiting:
  assumes ret: "fst (h r u) = r"
  shows "drain (waiting h r u k0 k1) = both_settled r (snd (h r u)) 0 (k0 + k1)"
  by (simp add: drain_step queue_nonempty run_next_waiting drain_both_settled
      run_next_source_settled [where h = h and r = r and u = u, OF ret])

lemma drain_reach:
  assumes "reach h r u n st" and ret: "fst (h r u) = r"
  shows "drain st = both_settled r (snd (h r u)) 0 n"
  using assms(1)
proof cases
  case (reach_waiting k0 k1)
  then show ?thesis by (simp add: drain_waiting [where h = h and r = r and u = u, OF ret])
next
  case (reach_source_settled k0 k1)
  then show ?thesis
    by (simp add: drain_source_settled [where h = h and r = r and u = u, OF ret])
next
  case (reach_both_settled j s)
  then show ?thesis by (simp add: drain_both_settled)
qed

lemma observe_reach:
  assumes "source \<lparr>cells = [], queue = [], user = u0, seen = []\<rparr> = (Wrapper 0, st1)"
    and "chain (Wrapper 0) st1 = (Wrapper (Suc 0), st2)"
    and "reach h r u 0 st2"
    and "fst (h r u) = r"
  shows "observe source chain script u0 = both_settled r (snd (h r u)) 0 (awaits script)"
proof -
  have "reach h r u (0 + awaits script) (exec (Wrapper 0) (Wrapper (Suc 0)) script st2)"
    using assms(4) assms(3) by (rule reach_exec)
  then have "drain (exec (Wrapper 0) (Wrapper (Suc 0)) script st2)
      = both_settled r (snd (h r u)) 0 (0 + awaits script)"
    using assms(4) by (rule drain_reach)
  with assms(1,2) show ?thesis
    by (simp add: observe_def)
qed

lemma observe_fromResult:
  "observe (fromResult_cell r) (\<lambda>w. inspect w fn) script u0
   = both_settled r (snd (inspect_callback fn r u0)) 0 (awaits script)"
proof (rule observe_reach)
  show "fromResult_cell r \<lparr>cells = [], queue = [], user = u0, seen = []\<rparr>
        = (Wrapper 0, \<lparr>cells = [\<lparr>state = Fulfilled r, reactions = []\<rparr>], queue = [],
                        user = u0, seen = []\<rparr>)"
    by (simp add: fromResult_cell_def new_promise_def)
  show "inspect (Wrapper 0) fn
          \<lparr>cells = [\<lparr>state = Fulfilled r, reactions = []\<rparr>], queue = [], user = u0, seen = []\<rparr>
        = (Wrapper (Suc 0), source_settled (inspect_callback fn) r u0 0 0)"
    by (simp add: inspect_def Promise_then_cell_def new_promise_def react_def source_settled_def)
  show "reach (inspect_callback fn) r u0 0 (source_settled (inspect_callback fn) r u0 0 0)"
    using reach_source_settled [of "inspect_callback fn" r u0 0 0] by simp
  show "fst (inspect_callback fn r u0) = r"
    by (simp add: inspect_callback_def)
qed


lemma observe_try_returns:
  fixes producer :: "'u \<Rightarrow> ('x thrown + 't) \<times> 'u"
  assumes "producer u0 = (Inr v, u1)"
  shows "observe (try_cell producer) (\<lambda>w. inspect w fn) script u0
         = both_settled (Ok v) (fn v u1) 0 (awaits script)"
proof -
  let ?r = "Ok v :: ('t, 'x thrown) Result"
  let ?st1 = "\<lparr>cells = [\<lparr>state = Pending, reactions = []\<rparr>],
               queue = [SettleJob 0 (Fulfilled ?r)], user = u1, seen = []\<rparr>
              :: (('t, 'x thrown) Result, 'x, 'u) store"
  have 1: "try_cell producer \<lparr>cells = [], queue = [], user = u0, seen = []\<rparr> = (Wrapper 0, ?st1)"
    using assms by (simp add: try_cell_def new_promise_def)
  have 2: "inspect (Wrapper 0) fn ?st1 = (Wrapper (Suc 0), waiting (inspect_callback fn) ?r u1 0 0)"
    by (simp add: inspect_def Promise_then_cell_def new_promise_def react_def waiting_def)
  have 3: "reach (inspect_callback fn) ?r u1 0
             (waiting (inspect_callback fn) ?r u1 0 0 :: (('t, 'x thrown) Result, 'x, 'u) store)"
    using reach_waiting [of "inspect_callback fn" ?r u1 0 0] by simp
  have 4: "fst (inspect_callback fn ?r u1) = ?r"
    by (simp add: inspect_callback_def)
  from observe_reach
    [where source = "try_cell producer" and chain = "\<lambda>w. inspect w fn", OF 1 2 3 4]
  show ?thesis
    by (simp add: inspect_callback_def)
qed

lemma observe_try_throws:
  assumes "producer u0 = (Inl e, u1)"
  shows "observe (try_cell producer) (\<lambda>w. inspect w fn) script u0
         = both_settled (Err e) (snd (inspect_callback fn (Err e) u1)) 0 (awaits script)"
proof (rule observe_reach)
  show "try_cell producer \<lparr>cells = [], queue = [], user = u0, seen = []\<rparr>
        = (Wrapper 0, \<lparr>cells = [\<lparr>state = Fulfilled (Err e), reactions = []\<rparr>],
                        queue = [], user = u1, seen = []\<rparr>)"
    using assms by (simp add: try_cell_def new_promise_def)
  show "inspect (Wrapper 0) fn
          \<lparr>cells = [\<lparr>state = Fulfilled (Err e), reactions = []\<rparr>],
           queue = [], user = u1, seen = []\<rparr>
        = (Wrapper (Suc 0), source_settled (inspect_callback fn) (Err e) u1 0 0)"
    by (simp add: inspect_def Promise_then_cell_def new_promise_def react_def source_settled_def)
  show "reach (inspect_callback fn) (Err e) u1 0
          (source_settled (inspect_callback fn) (Err e) u1 0 0)"
    using reach_source_settled [of "inspect_callback fn" "Err e" u1 0 0] by simp
  show "fst (inspect_callback fn (Err e) u1) = Err e"
    by (simp add: inspect_callback_def)
qed

text \<open>
  The cell of the source ends in the state that the settlement model of the previous
  sections gives to the promise of the same wrapper.
\<close>

lemma cells_agree_with_settlement:
  fixes producer :: "'u \<Rightarrow> ('x thrown + 't) \<times> 'u"
  shows "state (cells (observe (fromResult_cell r) (\<lambda>w. inspect w fn) script u0) ! 0)
         = ResultAsync.promise (toAsync_r r)"
    and "state (cells (observe (try_cell producer) (\<lambda>w. inspect w fn') script u0') ! 0)
         = ResultAsync.promise
             (ResultAsync_try (\<lambda>_. None)
                (\<lambda>_. case fst (producer u0') of Inl e \<Rightarrow> Inl e | Inr v \<Rightarrow> Inr (Plain v)) None)"
proof -
  show "state (cells (observe (fromResult_cell r) (\<lambda>w. inspect w fn) script u0) ! 0)
         = ResultAsync.promise (toAsync_r r)"
    by (simp add: observe_fromResult both_settled_def toAsync_r_def fromResult_def)
  show "state (cells (observe (try_cell producer) (\<lambda>w. inspect w fn') script u0') ! 0)
         = ResultAsync.promise
             (ResultAsync_try (\<lambda>_. None)
                (\<lambda>_. case fst (producer u0') of Inl e \<Rightarrow> Inl e | Inr v \<Rightarrow> Inr (Plain v)) None)"
  proof (cases "producer u0'")
    case (Pair outcome u1)
    show ?thesis
    proof (cases outcome)
      case (Inl e)
      with Pair show ?thesis
        by (simp add: observe_try_throws both_settled_def ResultAsync_try_def mapError_def)
    next
      case (Inr v)
      with Pair show ?thesis
        by (simp add: observe_try_returns both_settled_def ResultAsync_try_def resolve_value_plain)
    qed
  qed
qed


end
